theory Spec2Isabelle
  imports Main "HOL-Library.Word"
begin

unbundle bit_operations_syntax

section \<open>Frames and packet flags\<close>

type_synonym Cmd = "32 word"
type_synonym PacketFlag = "8 word"
type_synonym bytes = "8 word list"

text \<open>
  Modelled from the spec: the \<^verbatim>\<open>PacketFlag\<close> constants and the predicates
  \<^verbatim>\<open>IsRst\<close>, \<^verbatim>\<open>IsPush\<close>, \<^verbatim>\<open>IsNonBlock\<close>, whose declarations are in a file
  of the repository that is not among the sources. The spec gives the bits:
  \<^verbatim>\<open>0x1 Stream, 0x2 StreamEnd, 0x4 StreamRst, 0x8 NonBlock, 0x10 Push\<close>.
\<close>

definition StreamFlag :: PacketFlag where "StreamFlag = 1"
definition StreamEndFlag :: PacketFlag where "StreamEndFlag = 2"
definition StreamRstFlag :: PacketFlag where "StreamRstFlag = 4"
definition NonBlockFlag :: PacketFlag where "NonBlockFlag = 8"
definition PushFlag :: PacketFlag where "PushFlag = 16"

definition IsRst :: "PacketFlag \<Rightarrow> bool" where
  "IsRst flags = (flags AND StreamRstFlag \<noteq> 0)"

definition IsPush :: "PacketFlag \<Rightarrow> bool" where
  "IsPush flags = (flags AND PushFlag \<noteq> 0)"

definition IsNonBlock :: "PacketFlag \<Rightarrow> bool" where
  "IsNonBlock flags = (flags AND NonBlockFlag \<noteq> 0)"

text \<open>
  Modelled from the spec: the \<^verbatim>\<open>Stream\<close> type (declared outside the sources), with the
  attributes the spec lists and \<^verbatim>\<open>IsSelfClosed() \<Leftrightarrow> outClosed || rstSent\<close>.
\<close>

record Stream =
  inClosed :: bool
  outClosed :: bool
  rstSent :: bool

definition IsSelfClosed :: "Stream \<Rightarrow> bool" where
  "IsSelfClosed s = (outClosed s \<or> rstSent s)"

text \<open>
  \<^verbatim>\<open>RequestFrame\<close> as the sources use it: \<^verbatim>\<open>frame.RequestID\<close>, \<^verbatim>\<open>frame.Cmd\<close>,
  \<^verbatim>\<open>frame.Flags\<close>, \<^verbatim>\<open>frame.Stream\<close>; the payload is the frame's bytes.
\<close>

record RequestFrame =
  RequestID :: "64 word"
  Cmd :: Cmd
  Flags :: PacketFlag
  Payload :: bytes
  Stream :: Stream

section \<open>Outcomes of a call\<close>

text \<open>
  A Go call returns, panics, or never returns because it waits for a lock or a channel
  that nobody will release. The state reached is kept in the first two cases: deferred
  calls have run when a panic leaves the function.
\<close>

datatype panic =
    NilHandler
  | MultipleRegistrations Cmd
  | EmptyID
  | IndexOutOfRange int nat
  | CloseOfClosedChannel

datatype ('a, 's) outcome = Returns 'a 's | Panics panic 's | Blocks

section \<open>ServeMux\<close>

text \<open>
  \<^verbatim>\<open>sync.RWMutex\<close>: \<open>readers\<close> counts the read locks held, \<open>writer\<close> says whether the
  write lock is held. \<^verbatim>\<open>Lock\<close> waits while anyone holds the mutex, \<^verbatim>\<open>RLock\<close> waits
  while a writer holds it; a wait that cannot end in the modelled call is \<open>None\<close>.
\<close>

record RWMutex =
  readers :: nat
  writer :: bool

definition RWMutex_Lock :: "RWMutex \<Rightarrow> RWMutex option" where
  "RWMutex_Lock mu = (if writer mu \<or> readers mu > 0 then None else Some (mu\<lparr>writer := True\<rparr>))"

definition RWMutex_Unlock :: "RWMutex \<Rightarrow> RWMutex" where
  "RWMutex_Unlock mu = mu\<lparr>writer := False\<rparr>"

definition RWMutex_RLock :: "RWMutex \<Rightarrow> RWMutex option" where
  "RWMutex_RLock mu = (if writer mu then None else Some (mu\<lparr>readers := readers mu + 1\<rparr>))"

definition RWMutex_RUnlock :: "RWMutex \<Rightarrow> RWMutex" where
  "RWMutex_RUnlock mu = mu\<lparr>readers := readers mu - 1\<rparr>"

text \<open>
  \<^verbatim>\<open>ServeMux{mu, m}\<close>. The Go map \<open>m\<close> is nil until the first registration; reading a
  nil map finds nothing. A handler is an interface value: \<open>None\<close> is the nil handler.
\<close>

record 'h ServeMux =
  mu :: RWMutex
  m :: "(Cmd \<rightharpoonup> 'h) option"

definition NewServeMux :: "'h ServeMux" where
  "NewServeMux = \<lparr>mu = \<lparr>readers = 0, writer = False\<rparr>, m = None\<rparr>"

definition map_index :: "('k \<rightharpoonup> 'v) option \<Rightarrow> 'k \<Rightarrow> 'v option" where
  "map_index mp k = (case mp of None \<Rightarrow> None | Some f \<Rightarrow> f k)"

definition Handle :: "'h ServeMux \<Rightarrow> Cmd \<Rightarrow> 'h option \<Rightarrow> (unit, 'h ServeMux) outcome" where
  "Handle mux cmd handler =
     (case RWMutex_Lock (mu mux) of
        None \<Rightarrow> Blocks
      | Some l \<Rightarrow>
          (let mux1 = mux\<lparr>mu := l\<rparr>;
               unlock = (\<lambda>x. x\<lparr>mu := RWMutex_Unlock (mu x)\<rparr>)
           in case handler of
                None \<Rightarrow> Panics NilHandler (unlock mux1)
              | Some h \<Rightarrow>
                  if map_index (m mux1) cmd \<noteq> None
                  then Panics (MultipleRegistrations cmd) (unlock mux1)
                  else
                    (let made = (case m mux1 of None \<Rightarrow> Map.empty | Some f \<Rightarrow> f)
                     in Returns () (unlock (mux1\<lparr>m := Some (made(cmd \<mapsto> h))\<rparr>)))))"

text \<open>
  \<^verbatim>\<open>ServeMux.ServeQRPC(w, r)\<close>. What the mux does with the request is its result: it
  hands \<open>(w, r)\<close> to the handler found (\<open>Some h\<close>: the call \<^verbatim>\<open>h.ServeQRPC(w, r)\<close> is
  the last statement) or returns without calling anything (\<open>None\<close>). The mux itself
  never touches the writer \<open>w\<close>: a frame can only be written by an invoked handler.
\<close>

definition ServeQRPC :: "'h ServeMux \<Rightarrow> RequestFrame \<Rightarrow> ('h option, 'h ServeMux) outcome" where
  "ServeQRPC mux r =
     (case RWMutex_RLock (mu mux) of
        None \<Rightarrow> Blocks
      | Some l \<Rightarrow>
          (let mux1 = mux\<lparr>mu := l\<rparr>
           in case map_index (m mux1) (Cmd r) of
                None \<Rightarrow> Returns None mux1
              | Some h \<Rightarrow> Returns (Some h) (mux1\<lparr>mu := RWMutex_RUnlock (mu mux1)\<rparr>)))"

text \<open>
  The handlers a dispatch invokes; and the frames written to \<open>w\<close> during the dispatch,
  where \<open>writes h r\<close> are the frames that handler \<open>h\<close> writes when called on \<open>r\<close>.
\<close>

fun invoked :: "('h option, 's) outcome \<Rightarrow> 'h list" where
  "invoked (Returns (Some h) s) = [h]"
| "invoked _ = []"

definition written ::
  "('h \<Rightarrow> RequestFrame \<Rightarrow> 'w list) \<Rightarrow> RequestFrame \<Rightarrow> ('h option, 's) outcome \<Rightarrow> 'w list" where
  "written writes r out = concat (map (\<lambda>h. writes h r) (invoked out))"

definition mux_free :: "'h ServeMux \<Rightarrow> bool" where
  "mux_free mux = (readers (mu mux) = 0 \<and> \<not> writer (mu mux))"

section \<open>Server: construction and the connection registries\<close>

text \<open>Go \<^verbatim>\<open>error\<close> values. A network error answers \<^verbatim>\<open>Timeout()\<close> and \<^verbatim>\<open>Temporary()\<close>;
  \<open>OpError timeout temporary\<close> is a \<^verbatim>\<open>*net.OpError\<close>, \<open>NetError temporary\<close> another
  \<^verbatim>\<open>net.Error\<close>.\<close>

datatype error =
    ErrServerClosed
  | ErrInvalidPacket
  | ErrRstNonExistingStream
  | ErrWriteAfterCloseSelf
  | OpError bool bool
  | NetError bool
  | OtherError string

text \<open>\<^verbatim>\<open>e.(*net.OpError)\<close> succeeds and \<^verbatim>\<open>Timeout()\<close> holds; \<^verbatim>\<open>e.(net.Error)\<close> succeeds
  and \<^verbatim>\<open>Temporary()\<close> holds.\<close>

fun OpError_Timeout :: "error \<Rightarrow> bool" where
  "OpError_Timeout (OpError tmo tmp) = tmo"
| "OpError_Timeout _ = False"

fun Error_Temporary :: "error \<Rightarrow> bool" where
  "Error_Temporary (OpError tmo tmp) = tmp"
| "Error_Temporary (NetError tmp) = tmp"
| "Error_Temporary _ = False"

type_synonym conn_ref = nat
type_synonym listener = nat

text \<open>
  \<^verbatim>\<open>ServerBinding\<close> is declared outside the sources; these are the fields the sources
  read. \<open>LatencyMetric\<close> is an interface value, \<open>None\<close> when nil.
\<close>

record 'h ServerBinding =
  Addr :: string
  Handler :: 'h
  DefaultReadTimeout :: int
  DefaultWriteTimeout :: int
  MaxFrameSize :: int
  LatencyMetric :: "nat option"

text \<open>
  \<^verbatim>\<open>Server\<close>. \<open>smu\<close> is the mutex \<^verbatim>\<open>mu\<close> (held or not); \<open>listeners\<close> lists the keys of
  the Go map in the order a \<^verbatim>\<open>range\<close> over it visits them (any order is possible);
  \<open>doneChan\<close> says whether the channel is closed; \<open>activeConn\<close> holds the keys of each
  \<^verbatim>\<open>sync.Map\<close>. A connection is known by its address (\<open>conn_ref\<close>).
\<close>

record 'h Server =
  bindings :: "'h ServerBinding list"
  smu :: bool
  listeners :: "listener list"
  doneChan :: bool
  id2Conn :: "(string \<rightharpoonup> conn_ref) list"
  activeConn :: "conn_ref set list"
  pushID :: "64 word"

definition NewServer :: "'h ServerBinding list \<Rightarrow> 'h Server" where
  "NewServer bs =
     \<lparr>bindings = bs, smu = False, listeners = [], doneChan = False,
      id2Conn = [Map.empty, Map.empty],
      activeConn = replicate (length bs) {},
      pushID = 0\<rparr>"

text \<open>
  The part of \<^verbatim>\<open>serveconn\<close> that registration and closing use. \<open>untrack_flag\<close> is the
  field \<^verbatim>\<open>untrack\<close>, \<open>sc_id\<close> the field \<^verbatim>\<open>id\<close>; \<open>untrackedCh\<close> says whether the
  channel is closed; \<open>closeNotify\<close> lists the registered callbacks by a number each;
  \<open>rwc\<close> is the state of the socket; \<open>cancelled\<close> says whether \<^verbatim>\<open>cancelCtx\<close> has been
  called. \<open>did\<close> records, oldest first, what the teardown has done to the outside.
\<close>

datatype teardown = RwcClose | CancelCtx | Notified nat

record 'r serveconn =
  ref :: conn_ref
  idx :: int
  sc_id :: string
  untrack_flag :: "32 word"
  untrackedCh :: bool
  closeNotify :: "nat list"
  rwc :: 'r
  cancelled :: bool
  did :: "teardown list"

definition in_range :: "int \<Rightarrow> 'a list \<Rightarrow> bool" where
  "in_range i xs = (0 \<le> i \<and> i < int (length xs))"

definition newConn :: "'h Server \<Rightarrow> conn_ref \<Rightarrow> 'r \<Rightarrow> int \<Rightarrow> ('r serveconn, 'h Server) outcome" where
  "newConn srv c rw i =
     (if \<not> in_range i (activeConn srv)
      then Panics (IndexOutOfRange i (length (activeConn srv))) srv
      else Returns
             \<lparr>ref = c, idx = i, sc_id = [], untrack_flag = 0, untrackedCh = False,
              closeNotify = [], rwc = rw, cancelled = False, did = []\<rparr>
             (srv\<lparr>activeConn := (activeConn srv)[nat i := insert c (activeConn srv ! nat i)]\<rparr>))"

definition NotifyWhenClose :: "'r serveconn \<Rightarrow> nat \<Rightarrow> 'r serveconn" where
  "NotifyWhenClose sc f = sc\<lparr>closeNotify := closeNotify sc @ [f]\<rparr>"

text \<open>
  \<^verbatim>\<open>Server.bindID\<close>. \<^verbatim>\<open>closeLocked\<close> is not among the sources: it is the parameter
  \<open>closeLocked\<close>, the state of the server once the previous holder \<open>v\<close> has been closed
  and its channel has been received from. The mutex is released by a deferred call,
  so also when indexing \<^verbatim>\<open>srv.id2Conn[idx]\<close> panics.
\<close>

definition bindID ::
  "(conn_ref \<Rightarrow> 'h Server \<Rightarrow> 'h Server) \<Rightarrow> 'h Server \<Rightarrow> 'r serveconn \<Rightarrow> string
     \<Rightarrow> (unit, 'h Server) outcome" where
  "bindID closeLocked srv sc ident =
     (let i = idx sc in
      if smu srv then Blocks
      else
        (let srv1 = srv\<lparr>smu := True\<rparr>;
             unlock = (\<lambda>s. s\<lparr>smu := False\<rparr>);
             store = (\<lambda>s. if \<not> in_range i (id2Conn s)
                          then Panics (IndexOutOfRange i (length (id2Conn s))) (unlock s)
                          else Returns ()
                                 (unlock (s\<lparr>id2Conn :=
                                    (id2Conn s)[nat i := (id2Conn s ! nat i)(ident \<mapsto> ref sc)]\<rparr>)))
         in if \<not> in_range i (id2Conn srv1)
            then Panics (IndexOutOfRange i (length (id2Conn srv1))) (unlock srv1)
            else
              (case (id2Conn srv1 ! nat i) ident of
                 None \<Rightarrow> store srv1
               | Some v \<Rightarrow>
                   if v = ref sc then Returns () (unlock srv1)
                   else store (closeLocked v srv1))))"

text \<open>\<^verbatim>\<open>serveconn.SetID\<close>: the id is written to the connection before \<^verbatim>\<open>bindID\<close> runs.\<close>

definition SetID ::
  "(conn_ref \<Rightarrow> 'h Server \<Rightarrow> 'h Server) \<Rightarrow> 'h Server \<Rightarrow> 'r serveconn \<Rightarrow> string
     \<Rightarrow> (unit, 'h Server \<times> 'r serveconn) outcome" where
  "SetID closeLocked srv sc ident =
     (if ident = [] then Panics EmptyID (srv, sc)
      else
        (let sc1 = sc\<lparr>sc_id := ident\<rparr>
         in case bindID closeLocked srv sc1 ident of
              Returns u srv' \<Rightarrow> Returns () (srv', sc1)
            | Panics p srv' \<Rightarrow> Panics p (srv', sc1)
            | Blocks \<Rightarrow> Blocks))"

text \<open>
  \<^verbatim>\<open>Server.untrack(sc, inLock)\<close> of server.go. \<^verbatim>\<open>srv.id2Conn[idx]\<close> is evaluated only
  when the connection has an id; \<^verbatim>\<open>srv.activeConn[idx]\<close> always.
\<close>

definition untrack :: "'h Server \<Rightarrow> 'r serveconn \<Rightarrow> bool \<Rightarrow> (unit, 'h Server) outcome" where
  "untrack srv sc inLock =
     (let i = idx sc in
      if \<not> inLock \<and> smu srv then Blocks
      else
        (let srv1 = (if inLock then srv else srv\<lparr>smu := True\<rparr>);
             leave = (\<lambda>s. if inLock then s else s\<lparr>smu := False\<rparr>)
         in if sc_id sc \<noteq> [] \<and> \<not> in_range i (id2Conn srv1)
            then Panics (IndexOutOfRange i (length (id2Conn srv1))) (leave srv1)
            else
              (let srv2 = (if sc_id sc \<noteq> []
                           then srv1\<lparr>id2Conn :=
                                  (id2Conn srv1)[nat i := (id2Conn srv1 ! nat i)(sc_id sc := None)]\<rparr>
                           else srv1)
               in if \<not> in_range i (activeConn srv2)
                  then Panics (IndexOutOfRange i (length (activeConn srv2))) (leave srv2)
                  else Returns ()
                         (leave (srv2\<lparr>activeConn :=
                            (activeConn srv2)[nat i := activeConn srv2 ! nat i - {ref sc}]\<rparr>)))))"

section \<open>Closing a connection\<close>

text \<open>
  Modelled from the spec: the one-argument \<^verbatim>\<open>Server.untrack\<close> that \<^verbatim>\<open>serveconn.Close\<close>
  calls, which is not among the sources (server.go has the two-argument version above,
  which returns nothing). The spec: untrack reports \<^verbatim>\<open>(firstCaller, readyChannel)\<close>; it
  uses an atomic once-flag and a broadcast channel; it removes the connection from the
  server's active and identity registries. The field comment in the sources: only the
  first call to untrack actually does it, later calls wait for \<^verbatim>\<open>untrackedCh\<close>. So the
  first caller sets the flag, does the removal of server.go and closes the channel.
\<close>

definition untrack_once ::
  "'h Server \<Rightarrow> 'r serveconn \<Rightarrow> (bool, 'h Server \<times> 'r serveconn) outcome" where
  "untrack_once srv sc =
     (if untrack_flag sc \<noteq> 0 then Returns False (srv, sc)
      else
        (let sc1 = sc\<lparr>untrack_flag := 1\<rparr>
         in case untrack srv sc1 False of
              Returns u srv' \<Rightarrow> Returns True (srv', sc1\<lparr>untrackedCh := True\<rparr>)
            | Panics p srv' \<Rightarrow> Panics p (srv', sc1)
            | Blocks \<Rightarrow> Blocks))"

text \<open>
  \<^verbatim>\<open>serveconn.closeUntracked\<close>. \<open>rwcClose\<close> is \<^verbatim>\<open>sc.rwc.Close()\<close>, a method of the
  \<^verbatim>\<open>net.Conn\<close> interface: what it returns and how it changes the socket.
\<close>

definition closeUntracked ::
  "('r \<Rightarrow> error option \<times> 'r) \<Rightarrow> 'r serveconn \<Rightarrow> error option \<times> 'r serveconn" where
  "closeUntracked rwcClose sc =
     (case rwcClose (rwc sc) of
        (err, rw) \<Rightarrow>
          (let sc1 = sc\<lparr>rwc := rw, did := did sc @ [RwcClose]\<rparr>
           in case err of
                Some e \<Rightarrow> (Some e, sc1)
              | None \<Rightarrow>
                  (None, sc1\<lparr>cancelled := True,
                              did := did sc1 @ [CancelCtx] @ map Notified (closeNotify sc1)\<rparr>)))"

text \<open>
  \<^verbatim>\<open>serveconn.Close\<close>: a caller that is not the first receives from the channel, which
  a closed channel allows at once, and then runs \<^verbatim>\<open>closeUntracked\<close> like the first.
\<close>

definition Close ::
  "('r \<Rightarrow> error option \<times> 'r) \<Rightarrow> 'h Server \<Rightarrow> 'r serveconn
     \<Rightarrow> (error option, 'h Server \<times> 'r serveconn) outcome" where
  "Close rwcClose srv sc =
     (case untrack_once srv sc of
        Blocks \<Rightarrow> Blocks
      | Panics p st \<Rightarrow> Panics p st
      | Returns ok st \<Rightarrow>
          if \<not> ok \<and> \<not> untrackedCh (snd st) then Blocks
          else (case closeUntracked rwcClose (snd st) of
                  (err, sc') \<Rightarrow> Returns err (fst st, sc')))"

text \<open>\<open>n\<close> calls of \<^verbatim>\<open>Close\<close> on one connection, one after the other, with what each returned.\<close>

fun Close_times ::
  "('r \<Rightarrow> error option \<times> 'r) \<Rightarrow> nat \<Rightarrow> 'h Server \<Rightarrow> 'r serveconn
     \<Rightarrow> (error option list, 'h Server \<times> 'r serveconn) outcome" where
  "Close_times rwcClose 0 srv sc = Returns [] (srv, sc)"
| "Close_times rwcClose (Suc n) srv sc =
     (case Close rwcClose srv sc of
        Blocks \<Rightarrow> Blocks
      | Panics p st \<Rightarrow> Panics p st
      | Returns err st \<Rightarrow>
          (case Close_times rwcClose n (fst st) (snd st) of
             Blocks \<Rightarrow> Blocks
           | Panics p st' \<Rightarrow> Panics p st'
           | Returns errs st' \<Rightarrow> Returns (err # errs) st'))"

text \<open>
  The socket of an accepted connection, \<^verbatim>\<open>*net.TCPConn\<close>, as far as the sources use it:
  \<^verbatim>\<open>SetKeepAlive\<close>, \<^verbatim>\<open>SetKeepAlivePeriod\<close> (a \<^verbatim>\<open>time.Duration\<close>, in nanoseconds) and
  \<^verbatim>\<open>Close\<close>. Go's net package marks an open socket closed and returns what the system's
  close answered (\<open>close_result\<close>, nil unless the system call fails); it answers every
  later \<^verbatim>\<open>Close\<close> with the error "use of closed network connection", a
  \<^verbatim>\<open>*net.OpError\<close>.
\<close>

record TCPConn =
  fd :: nat
  is_open :: bool
  close_result :: "error option"
  keepAlive :: bool
  keepAlivePeriod :: nat


definition count_did :: "teardown \<Rightarrow> 'r serveconn \<Rightarrow> nat" where
  "count_did t sc = length (filter (\<lambda>x. x = t) (did sc))"

section \<open>Shutdown\<close>









definition trackListener :: "'h Server \<Rightarrow> listener \<Rightarrow> bool \<Rightarrow> 'h Server option" where
  "trackListener srv ln add =
     (if smu srv then None
      else if add
      then Some (if ln \<in> set (listeners srv) then srv else srv\<lparr>listeners := listeners srv @ [ln]\<rparr>)
      else Some (srv\<lparr>listeners := removeAll ln (listeners srv)\<rparr>))"

section \<open>Frame writers and pushes\<close>

text \<open>
  Modelled from the spec: the frame writer behind the \<^verbatim>\<open>FrameWriter\<close> interface
  (\<^verbatim>\<open>newFrameWriter\<close> and \<^verbatim>\<open>defaultFrameWriter\<close> are not among the sources).
  \<^verbatim>\<open>start_write(requestID, cmd, flags)\<close> begins a new frame buffer, \<^verbatim>\<open>write_bytes\<close>
  appends a copy of the bytes, \<^verbatim>\<open>end_write\<close> submits the buffer to the writer loop and
  waits for the outcome the loop reports.
\<close>

record defaultFrameWriter =
  w_RequestID :: "64 word"
  w_Cmd :: Cmd
  w_Flags :: PacketFlag
  w_Payload :: bytes

definition newFrameWriter :: defaultFrameWriter where
  "newFrameWriter = \<lparr>w_RequestID = 0, w_Cmd = 0, w_Flags = 0, w_Payload = []\<rparr>"

definition StartWrite :: "defaultFrameWriter \<Rightarrow> 64 word \<Rightarrow> Cmd \<Rightarrow> PacketFlag \<Rightarrow> defaultFrameWriter" where
  "StartWrite w requestID cmd flags =
     \<lparr>w_RequestID = requestID, w_Cmd = cmd, w_Flags = flags, w_Payload = []\<rparr>"

definition WriteBytes :: "defaultFrameWriter \<Rightarrow> bytes \<Rightarrow> defaultFrameWriter" where
  "WriteBytes w v = w\<lparr>w_Payload := w_Payload w @ v\<rparr>"

text \<open>
  \<^verbatim>\<open>Server.PushFrame\<close>. \<open>endWrite\<close> is \<^verbatim>\<open>w.EndWrite()\<close> on the connection's writer: the
  answer of that connection's writer loop to the frame submitted. The result is the
  error returned, the frame submitted, and the server with its counter advanced
  (\<^verbatim>\<open>atomic.AddUint64\<close> wraps around at \<open>2^64\<close>).
\<close>

definition PushFrame ::
  "(defaultFrameWriter \<Rightarrow> error option) \<Rightarrow> 'h Server \<Rightarrow> Cmd \<Rightarrow> PacketFlag \<Rightarrow> bytes
     \<Rightarrow> error option \<times> defaultFrameWriter \<times> 'h Server" where
  "PushFrame endWrite srv cmd flags payload =
     (let pushID' = pushID srv + 1;
          srv' = srv\<lparr>pushID := pushID'\<rparr>;
          flags' = flags AND PushFlag;
          w = newFrameWriter;
          w1 = StartWrite w pushID' cmd flags';
          w2 = WriteBytes w1 payload
      in (endWrite w2, w2, srv'))"

section \<open>The writer loop\<close>

text \<open>
  The stream table \<^verbatim>\<open>connstreams\<close> and its streams are declared outside the sources.
  The writer loop is modelled over any table \<open>'cs\<close> with stream handles \<open>'st\<close>, given the
  three operations the loop calls; each returns the table as it leaves it.
\<close>

record ('cs, 'st) connstreams =
  GetStream :: "'cs \<Rightarrow> 64 word \<Rightarrow> PacketFlag \<Rightarrow> 'st option"
  CreateOrGetStream :: "'cs \<Rightarrow> 64 word \<Rightarrow> PacketFlag \<Rightarrow> 'st \<times> 'cs"
  AddOutFrame :: "'cs \<Rightarrow> 'st \<Rightarrow> 64 word \<Rightarrow> PacketFlag \<Rightarrow> bool \<times> 'cs"

text \<open>
  What the writer task has done: \<open>cs\<close> is the stream table, \<open>handed\<close> the frames whose
  buffer it has passed to \<^verbatim>\<open>writer.Write\<close>, oldest first, \<open>closes\<close> the number of
  \<^verbatim>\<open>sc.Close()\<close> calls it has made.
\<close>

record 'cs writing =
  cs :: 'cs
  handed :: "defaultFrameWriter list"
  closes :: nat

text \<open>The tail of an iteration: \<^verbatim>\<open>writer.Write(dfw.GetWbuf())\<close>, whose result is \<open>write dfw\<close>.\<close>

definition socket_write ::
  "(defaultFrameWriter \<Rightarrow> error option) \<Rightarrow> defaultFrameWriter \<Rightarrow> 'cs writing
     \<Rightarrow> error option \<times> 'cs writing" where
  "socket_write write dfw st =
     (let st1 = st\<lparr>handed := handed st @ [dfw]\<rparr>
      in case write dfw of
           None \<Rightarrow> (None, st1)
         | Some err \<Rightarrow> (Some err, st1\<lparr>closes := closes st1 + 1\<rparr>))"

text \<open>One iteration of \<^verbatim>\<open>writeFrames\<close> on a request received from \<^verbatim>\<open>writeFrameCh\<close>: the
  value sent on \<^verbatim>\<open>res.result\<close> and the state after.\<close>

definition writeFrames_request ::
  "('cs, 'st) connstreams \<Rightarrow> (defaultFrameWriter \<Rightarrow> error option) \<Rightarrow> defaultFrameWriter
     \<Rightarrow> 'cs writing \<Rightarrow> error option \<times> 'cs writing" where
  "writeFrames_request ops write dfw st =
     (let flags = w_Flags dfw;
          requestID = w_RequestID dfw
      in if IsRst flags
         then
           (case GetStream ops (cs st) requestID flags of
              None \<Rightarrow> (Some ErrRstNonExistingStream, st)
            | Some s \<Rightarrow>
                (case AddOutFrame ops (cs st) s requestID flags of
                   (added, cs') \<Rightarrow>
                     if \<not> added then (None, st\<lparr>cs := cs'\<rparr>)
                     else socket_write write dfw (st\<lparr>cs := cs'\<rparr>)))
         else if \<not> IsPush flags
         then
           (case CreateOrGetStream ops (cs st) requestID flags of
              (s, cs1) \<Rightarrow>
                (case AddOutFrame ops cs1 s requestID flags of
                   (added, cs') \<Rightarrow>
                     if \<not> added then (Some ErrWriteAfterCloseSelf, st\<lparr>cs := cs'\<rparr>)
                     else socket_write write dfw (st\<lparr>cs := cs'\<rparr>)))
         else socket_write write dfw st)"

text \<open>The loop, over the requests received before the context is done.\<close>

fun writeFrames ::
  "('cs, 'st) connstreams \<Rightarrow> (defaultFrameWriter \<Rightarrow> error option) \<Rightarrow> defaultFrameWriter list
     \<Rightarrow> 'cs writing \<Rightarrow> error option list \<times> 'cs writing" where
  "writeFrames ops write [] st = ([], st)"
| "writeFrames ops write (dfw # rest) st =
     (case writeFrames_request ops write dfw st of
        (r, st1) \<Rightarrow>
          (case writeFrames ops write rest st1 of (rs, st2) \<Rightarrow> (r # rs, st2)))"

text \<open>
  Modelled from the spec: a stream table as section 4.C describes it, keyed by
  \<^verbatim>\<open>requestID\<close>. \<^verbatim>\<open>AddOutFrame\<close>: for \<^verbatim>\<open>Rst\<close>, false if the stream has already sent
  \<^verbatim>\<open>Rst\<close>; for a normal frame on an \<^verbatim>\<open>outClosed\<close> stream, false; \<^verbatim>\<open>StreamEndFlag\<close> marks
  \<^verbatim>\<open>outClosed\<close> after accepting the frame; if both \<^verbatim>\<open>Rst\<close> and \<^verbatim>\<open>End\<close> are set, \<^verbatim>\<open>Rst\<close>
  wins. It instantiates the parameters above.
\<close>

type_synonym table = "64 word \<rightharpoonup> Stream"

definition fresh_stream :: Stream where
  "fresh_stream = \<lparr>inClosed = False, outClosed = False, rstSent = False\<rparr>"

definition table_GetStream :: "table \<Rightarrow> 64 word \<Rightarrow> PacketFlag \<Rightarrow> 64 word option" where
  "table_GetStream t requestID flags = (if t requestID = None then None else Some requestID)"

definition table_CreateOrGetStream :: "table \<Rightarrow> 64 word \<Rightarrow> PacketFlag \<Rightarrow> 64 word \<times> table" where
  "table_CreateOrGetStream t requestID flags =
     (requestID, if t requestID = None then t(requestID \<mapsto> fresh_stream) else t)"

definition table_AddOutFrame :: "table \<Rightarrow> 64 word \<Rightarrow> 64 word \<Rightarrow> PacketFlag \<Rightarrow> bool \<times> table" where
  "table_AddOutFrame t s requestID flags =
     (case t s of
        None \<Rightarrow> (False, t)
      | Some x \<Rightarrow>
          if IsRst flags
          then (if rstSent x then (False, t) else (True, t(s \<mapsto> x\<lparr>rstSent := True\<rparr>)))
          else if IsSelfClosed x then (False, t)
          else if flags AND StreamEndFlag \<noteq> 0 then (True, t(s \<mapsto> x\<lparr>outClosed := True\<rparr>))
          else (True, t))"

definition table_ops :: "(table, 64 word) connstreams" where
  "table_ops =
     \<lparr>GetStream = table_GetStream,
      CreateOrGetStream = table_CreateOrGetStream,
      AddOutFrame = table_AddOutFrame\<rparr>"

section \<open>The dispatcher of a connection\<close>

text \<open>
  What a dispatcher or a handler task does, in order. \<open>Serve w f\<close> is the call
  \<^verbatim>\<open>handler.ServeQRPC(w, f)\<close>, from its start to its end, on the connection's own writer
  \<^verbatim>\<open>sc.writer\<close> (\<open>ConnWriter\<close>) or on a new one from \<^verbatim>\<open>sc.GetWriter()\<close> (\<open>FreshWriter\<close>);
  \<open>Observe lvs ns\<close> is \<^verbatim>\<open>LatencyMetric.With(lvs...).Observe\<close> of a duration;
  \<open>EndWrite w\<close> submits the frame of \<open>w\<close> to the writer loop; \<open>ReadMore\<close> signals the
  reader's gate; \<open>GoFunc es\<close> starts a task that does \<open>es\<close>.
\<close>

datatype writer_handle = ConnWriter | FreshWriter

datatype conn_event =
    Serve writer_handle RequestFrame
  | Observe "string list" nat
  | LogError string
  | EndWrite defaultFrameWriter
  | ReadMore
  | GoFunc "conn_event list"

text \<open>
  How a call of the user's handler ended: \<open>recovered\<close> is what \<^verbatim>\<open>recover()\<close> returns in
  the deferred \<^verbatim>\<open>handleRequestPanic\<close> (\<open>None\<close> is nil: no panic; a panic value is kept as
  \<^verbatim>\<open>%v\<close> prints it), \<open>stream_after\<close> the state of \<^verbatim>\<open>frame.Stream\<close> at that moment,
  \<open>took\<close> is \<^verbatim>\<open>time.Since(begin)\<close> in nanoseconds.
\<close>

record HandlerRun =
  recovered :: "string option"
  stream_after :: Stream
  took :: nat

definition digit :: "nat \<Rightarrow> char" where
  "digit d = ''0123456789'' ! d"

function Itoa :: "nat \<Rightarrow> string" where
  "Itoa n = (if n < 10 then [digit n] else Itoa (n div 10) @ [digit (n mod 10)])"
  by pat_completeness auto
termination
  by (relation "measure (\<lambda>n. n)") auto

declare Itoa.simps [simp del]

definition Sprintf_v :: "string option \<Rightarrow> string" where
  "Sprintf_v err = (case err of None \<Rightarrow> ''<nil>'' | Some v \<Rightarrow> v)"

definition instrument ::
  "'h ServerBinding \<Rightarrow> RequestFrame \<Rightarrow> nat \<Rightarrow> string option \<Rightarrow> conn_event list" where
  "instrument binding frame since err =
     (if LatencyMetric binding = None then []
      else [Observe [''method'', Itoa (unat (Cmd frame)), ''error'', Sprintf_v err] since])"

text \<open>
  \<^verbatim>\<open>handleRequestPanic\<close>, given what \<^verbatim>\<open>recover()\<close> returned. \<open>endWrite\<close> is the answer of
  the writer loop to \<^verbatim>\<open>writer.EndWrite()\<close>.
\<close>

definition handleRequestPanic ::
  "(defaultFrameWriter \<Rightarrow> error option) \<Rightarrow> 'h ServerBinding \<Rightarrow> RequestFrame \<Rightarrow> nat
     \<Rightarrow> string option \<Rightarrow> conn_event list" where
  "handleRequestPanic endWrite binding frame since err =
     instrument binding frame since err @
     (if err \<noteq> None then [LogError ''handleRequestPanic''] else []) @
     (let s = Stream frame
      in if \<not> IsSelfClosed s
         then
           (let writer = StartWrite newFrameWriter (RequestID frame) 0 StreamRstFlag
            in EndWrite writer #
               (if endWrite writer \<noteq> None then [LogError ''send error frame''] else []))
         else [])"

text \<open>The frames with \<^verbatim>\<open>StreamRstFlag\<close> that a run of events submits for a request id.\<close>

fun rst_frames :: "64 word \<Rightarrow> conn_event list \<Rightarrow> defaultFrameWriter list" where
  "rst_frames rid [] = []"
| "rst_frames rid (EndWrite w # es) =
     (if w_RequestID w = rid \<and> IsRst (w_Flags w) then w # rst_frames rid es
      else rst_frames rid es)"
| "rst_frames rid (e # es) = rst_frames rid es"

fun observations :: "conn_event list \<Rightarrow> string list list" where
  "observations [] = []"
| "observations (Observe lvs ns # es) = lvs # observations es"
| "observations (e # es) = observations es"

text \<open>
  The body of the \<^verbatim>\<open>select\<close> case of \<^verbatim>\<open>serveconn.serve\<close> for one received frame. \<open>run\<close>
  tells how the binding's handler ends on a writer and a frame.
\<close>

definition serve_frame ::
  "('h \<Rightarrow> writer_handle \<Rightarrow> RequestFrame \<Rightarrow> HandlerRun) \<Rightarrow> (defaultFrameWriter \<Rightarrow> error option)
     \<Rightarrow> 'h ServerBinding \<Rightarrow> RequestFrame \<Rightarrow> conn_event list" where
  "serve_frame run endWrite binding f =
     (let handler = Handler binding
      in if \<not> IsNonBlock (Flags f)
         then
           (let r = run handler ConnWriter f
            in Serve ConnWriter f #
               handleRequestPanic endWrite binding (f\<lparr>Stream := stream_after r\<rparr>) (took r)
                 (recovered r) @
               [ReadMore])
         else
           (let r = run handler FreshWriter f
            in [ReadMore,
                GoFunc
                  (Serve FreshWriter f #
                   handleRequestPanic endWrite binding (f\<lparr>Stream := stream_after r\<rparr>) (took r)
                     (recovered r))]))"

text \<open>
  The \<^verbatim>\<open>for\<close>/\<^verbatim>\<open>select\<close> loop of \<^verbatim>\<open>serveconn.serve\<close>, over what each \<^verbatim>\<open>select\<close> receives:
  the context is done, or the reader hands over a frame. The result is what the
  dispatcher did and whether it has returned.
\<close>

datatype selected = CtxDone | ReadFrame RequestFrame

fun serveconn_serve ::
  "('h \<Rightarrow> writer_handle \<Rightarrow> RequestFrame \<Rightarrow> HandlerRun) \<Rightarrow> (defaultFrameWriter \<Rightarrow> error option)
     \<Rightarrow> 'h ServerBinding \<Rightarrow> selected list \<Rightarrow> conn_event list \<times> bool" where
  "serveconn_serve run endWrite binding [] = ([], False)"
| "serveconn_serve run endWrite binding (CtxDone # rest) = ([], True)"
| "serveconn_serve run endWrite binding (ReadFrame f # rest) =
     (case serveconn_serve run endWrite binding rest of
        (es, returned) \<Rightarrow> (serve_frame run endWrite binding f @ es, returned))"

text \<open>The frames the dispatcher received, and the handler calls it made itself.\<close>

fun received :: "selected list \<Rightarrow> RequestFrame list" where
  "received [] = []"
| "received (CtxDone # rest) = []"
| "received (ReadFrame f # rest) = f # received rest"

fun inline_calls :: "conn_event list \<Rightarrow> (writer_handle \<times> RequestFrame) list" where
  "inline_calls [] = []"
| "inline_calls (Serve w f # es) = (w, f) # inline_calls es"
| "inline_calls (e # es) = inline_calls es"

fun spawned_calls :: "conn_event list \<Rightarrow> (writer_handle \<times> RequestFrame) list" where
  "spawned_calls [] = []"
| "spawned_calls (GoFunc t # es) = inline_calls t @ spawned_calls es"
| "spawned_calls (e # es) = spawned_calls es"

section \<open>Accepting connections\<close>

definition Millisecond :: nat where "Millisecond = 1000000"
definition Second :: nat where "Second = 1000 * Millisecond"
definition Minute :: nat where "Minute = 60 * Second"

definition defaultAcceptTimeout :: nat where
  "defaultAcceptTimeout = 5 * Second"

text \<open>
  \<^verbatim>\<open>tcpKeepAliveListener.Accept\<close>, given what the embedded listener's \<^verbatim>\<open>AcceptTCP()\<close>
  returned.
\<close>

definition Accept :: "error + TCPConn \<Rightarrow> error + TCPConn" where
  "Accept accepted =
     (case accepted of
        Inl err \<Rightarrow> Inl err
      | Inr tc \<Rightarrow> Inr (tc\<lparr>keepAlive := True, keepAlivePeriod := 3 * Minute\<rparr>))"

text \<open>
  One turn of the accept loop takes from outside: what \<^verbatim>\<open>l.AcceptTCP()\<close> returned (the
  method of the embedded \<^verbatim>\<open>*net.TCPListener\<close>, which the loop calls directly), whether
  \<^verbatim>\<open>doneChan\<close> was closed when the loop looked, and the address of the \<^verbatim>\<open>serveconn\<close>
  that \<^verbatim>\<open>newConn\<close> allocates.
\<close>

record accept_turn =
  accepted :: "error + TCPConn"
  done_seen :: bool
  fresh :: conn_ref

datatype accept_event =
    SetDeadline nat
  | Logf
  | Sleep nat
  | GoServe "TCPConn serveconn"
  | CancelFunc
  | ListenerClosed

datatype 'h served =
    Accepting "'h Server"
  | Returned error "'h Server"
  | Panicked panic "'h Server"
  | Waiting

definition backoff :: "nat \<Rightarrow> nat" where
  "backoff tempDelay =
     (let d = (if tempDelay = 0 then 5 * Millisecond else tempDelay * 2)
      in if d > 1 * Second then 1 * Second else d)"

fun accept_loop ::
  "int \<Rightarrow> nat \<Rightarrow> 'h Server \<Rightarrow> accept_turn list \<Rightarrow> accept_event list \<times> 'h served" where
  "accept_loop i tempDelay srv [] = ([], Accepting srv)"
| "accept_loop i tempDelay srv (a # rest) =
     (case accepted a of
        Inl e \<Rightarrow>
          if done_seen a then ([SetDeadline defaultAcceptTimeout], Returned ErrServerClosed srv)
          else if OpError_Timeout e
          then (case accept_loop i tempDelay srv rest of
                  (es, r) \<Rightarrow> (SetDeadline defaultAcceptTimeout # es, r))
          else if Error_Temporary e
          then (case accept_loop i (backoff tempDelay) srv rest of
                  (es, r) \<Rightarrow>
                    (SetDeadline defaultAcceptTimeout # Logf # Sleep (backoff tempDelay) # es, r))
          else ([SetDeadline defaultAcceptTimeout], Returned e srv)
      | Inr rw \<Rightarrow>
          (case newConn srv (fresh a) rw i of
             Returns c srv' \<Rightarrow>
               (case accept_loop i 0 srv' rest of
                  (es, r) \<Rightarrow> (SetDeadline defaultAcceptTimeout # GoServe c # es, r))
           | Panics p srv' \<Rightarrow> ([SetDeadline defaultAcceptTimeout], Panicked p srv')
           | Blocks \<Rightarrow> ([SetDeadline defaultAcceptTimeout], Waiting)))"

text \<open>
  \<^verbatim>\<open>Server.serve(l, idx)\<close>: the listener is tracked and the loop runs. When the loop is
  left, the deferred calls run, last first: \<^verbatim>\<open>cancelFunc()\<close>, then
  \<^verbatim>\<open>srv.trackListener(l, false)\<close>, which waits for the mutex, then \<^verbatim>\<open>l.Close()\<close>.
\<close>

definition leave_serve ::
  "listener \<Rightarrow> 'h Server \<Rightarrow> ('h Server \<Rightarrow> 'h served) \<Rightarrow> accept_event list \<times> 'h served" where
  "leave_serve l s result =
     (case trackListener s l False of
        None \<Rightarrow> ([CancelFunc], Waiting)
      | Some s' \<Rightarrow> ([CancelFunc, ListenerClosed], result s'))"

definition Server_serve ::
  "listener \<Rightarrow> int \<Rightarrow> 'h Server \<Rightarrow> accept_turn list \<Rightarrow> accept_event list \<times> 'h served" where
  "Server_serve l i srv turns =
     (case trackListener srv l True of
        None \<Rightarrow> ([], Waiting)
      | Some srv1 \<Rightarrow>
          (case accept_loop i 0 srv1 turns of
             (es, r) \<Rightarrow>
               (case r of
                  Accepting s \<Rightarrow> (es, Accepting s)
                | Waiting \<Rightarrow> (es, Waiting)
                | Returned e s \<Rightarrow>
                    (case leave_serve l s (Returned e) of (ds, r') \<Rightarrow> (es @ ds, r'))
                | Panicked p s \<Rightarrow>
                    (case leave_serve l s (Panicked p) of (ds, r') \<Rightarrow> (es @ ds, r')))))"

text \<open>The sockets of the connections that a run of the accept loop has started serving.\<close>

fun served_sockets :: "accept_event list \<Rightarrow> TCPConn list" where
  "served_sockets [] = []"
| "served_sockets (GoServe c # es) = rwc c # served_sockets es"
| "served_sockets (e # es) = served_sockets es"

section \<open>Example values\<close>

definition binding_ex :: "nat ServerBinding" where
  "binding_ex =
     \<lparr>Addr = ''127.0.0.1:8001'', Handler = 0, DefaultReadTimeout = 0, DefaultWriteTimeout = 0,
      MaxFrameSize = 0, LatencyMetric = None\<rparr>"

definition mux_ex :: "nat ServeMux" where
  "mux_ex = \<lparr>mu = \<lparr>readers = 0, writer = False\<rparr>, m = Some [1 \<mapsto> 5]\<rparr>"

definition frame_ex :: "Cmd \<Rightarrow> PacketFlag \<Rightarrow> RequestFrame" where
  "frame_ex c fl =
     \<lparr>RequestID = 42, Cmd = c, Flags = fl, Payload = [104, 105],
      Stream = \<lparr>inClosed = False, outClosed = False, rstSent = False\<rparr>\<rparr>"







definition raw_conn :: TCPConn where
  "raw_conn = \<lparr>fd = 9, is_open = True, close_result = None, keepAlive = False, keepAlivePeriod = 0\<rparr>"

definition table_ex :: table where
  "table_ex =
     [1 \<mapsto> \<lparr>inClosed = False, outClosed = False, rstSent = True\<rparr>,
      2 \<mapsto> \<lparr>inClosed = False, outClosed = True, rstSent = False\<rparr>]"

definition writing_ex :: "table writing" where
  "writing_ex = \<lparr>cs = table_ex, handed = [], closes = 0\<rparr>"

definition out_frame :: "64 word \<Rightarrow> PacketFlag \<Rightarrow> defaultFrameWriter" where
  "out_frame rid fl = \<lparr>w_RequestID = rid, w_Cmd = 7, w_Flags = fl, w_Payload = [104, 105]\<rparr>"

definition run_ex :: "nat \<Rightarrow> writer_handle \<Rightarrow> RequestFrame \<Rightarrow> HandlerRun" where
  "run_ex h w f = \<lparr>recovered = None, stream_after = Stream f, took = 1000\<rparr>"

section \<open>Properties of the mux\<close>

lemma ServeQRPC_unknown:
  "\<not> writer (mu mux) \<Longrightarrow> map_index (m mux) (Cmd r) = None \<Longrightarrow>
     ServeQRPC mux r = Returns None (mux\<lparr>mu := (mu mux)\<lparr>readers := readers (mu mux) + 1\<rparr>\<rparr>)"
  by (simp add: ServeQRPC_def RWMutex_RLock_def Let_def)

lemma ServeQRPC_known:
  "\<not> writer (mu mux) \<Longrightarrow> map_index (m mux) (Cmd r) = Some h \<Longrightarrow>
     ServeQRPC mux r = Returns (Some h) mux"
  by (simp add: ServeQRPC_def RWMutex_RLock_def RWMutex_RUnlock_def Let_def)

lemma invoked_unknown:
  "map_index (m mux) (Cmd r) = None \<Longrightarrow> invoked (ServeQRPC mux r) = []"
  by (simp add: ServeQRPC_def RWMutex_RLock_def Let_def)

lemma Handle_nil: "mux_free mux \<Longrightarrow> Handle mux cmd None = Panics NilHandler mux"
  by (simp add: Handle_def mux_free_def RWMutex_Lock_def RWMutex_Unlock_def Let_def)

lemma Handle_duplicate:
  "mux_free mux \<Longrightarrow> map_index (m mux) cmd \<noteq> None \<Longrightarrow>
     Handle mux cmd (Some h) = Panics (MultipleRegistrations cmd) mux"
  by (simp add: Handle_def mux_free_def RWMutex_Lock_def RWMutex_Unlock_def Let_def)

lemma Handle_new:
  "mux_free mux \<Longrightarrow> map_index (m mux) cmd = None \<Longrightarrow>
     Handle mux cmd (Some h) =
       Returns () (mux\<lparr>m := Some ((case m mux of None \<Rightarrow> Map.empty | Some f \<Rightarrow> f)(cmd \<mapsto> h))\<rparr>)"
  by (simp add: Handle_def mux_free_def RWMutex_Lock_def RWMutex_Unlock_def Let_def)

lemma Handle_waits_for_readers: "readers (mu mux) > 0 \<Longrightarrow> Handle mux cmd h = Blocks"
  by (simp add: Handle_def RWMutex_Lock_def)

lemma Handle_twice:
  assumes "mux_free mux" and "Handle mux cmd (Some h) = Returns () mux'"
  shows "Handle mux' cmd (Some h') = Panics (MultipleRegistrations cmd) mux'"
proof (cases "map_index (m mux) cmd = None")
  case True
  with assms have mux': "mux' = mux\<lparr>m := Some ((case m mux of None \<Rightarrow> Map.empty | Some f \<Rightarrow> f)(cmd \<mapsto> h))\<rparr>"
    by (simp add: Handle_new)
  have "mux_free mux'"
    using assms(1) by (simp add: mux' mux_free_def)
  moreover have "map_index (m mux') cmd \<noteq> None"
    by (simp add: mux' map_index_def)
  ultimately show ?thesis
    by (rule Handle_duplicate)
next
  case False
  with assms show ?thesis
    by (simp add: Handle_duplicate)
qed

text \<open>
  Claim C8. For a request whose cmd has no registered handler, \<^verbatim>\<open>ServeMux.ServeQRPC\<close>
  invokes no handler and no frame is written to the writer, whatever the handlers
  would write; and (the mutex not being write-locked) it returns, with the handler map
  as it was. \<^verbatim>\<open>Handle\<close>, called on a mux whose mutex is free, panics on a nil handler and
  on a cmd that is registered already, in particular on the second of two registrations
  of one cmd.
\<close>

theorem mux_drops_unknown_cmd_and_Handle_rejects:
  "(map_index (m mux) (Cmd r) = None \<longrightarrow>
      invoked (ServeQRPC mux r) = [] \<and> written writes r (ServeQRPC mux r) = []) \<and>
   (\<not> writer (mu mux) \<and> map_index (m mux) (Cmd r) = None \<longrightarrow>
      (\<exists>mux'. ServeQRPC mux r = Returns None mux' \<and> m mux' = m mux)) \<and>
   (mux_free mux \<longrightarrow> Handle mux cmd None = Panics NilHandler mux) \<and>
   (mux_free mux \<and> map_index (m mux) cmd \<noteq> None \<longrightarrow>
      Handle mux cmd (Some h) = Panics (MultipleRegistrations cmd) mux) \<and>
   (mux_free mux \<and> Handle mux cmd (Some h) = Returns () mux' \<longrightarrow>
      Handle mux' cmd (Some h') = Panics (MultipleRegistrations cmd) mux')"
proof (intro conjI impI)
  assume "map_index (m mux) (Cmd r) = None"
  then show "invoked (ServeQRPC mux r) = []"
    by (rule invoked_unknown)
next
  assume "map_index (m mux) (Cmd r) = None"
  then show "written writes r (ServeQRPC mux r) = []"
    by (simp add: written_def invoked_unknown)
next
  assume "\<not> writer (mu mux) \<and> map_index (m mux) (Cmd r) = None"
  then show "\<exists>mux'. ServeQRPC mux r = Returns None mux' \<and> m mux' = m mux"
    by (simp add: ServeQRPC_unknown)
next
  assume "mux_free mux"
  then show "Handle mux cmd None = Panics NilHandler mux"
    by (rule Handle_nil)
next
  assume "mux_free mux \<and> map_index (m mux) cmd \<noteq> None"
  then show "Handle mux cmd (Some h) = Panics (MultipleRegistrations cmd) mux"
    by (simp add: Handle_duplicate)
next
  assume "mux_free mux \<and> Handle mux cmd (Some h) = Returns () mux'"
  then show "Handle mux' cmd (Some h') = Panics (MultipleRegistrations cmd) mux'"
    by (blast intro: Handle_twice)
qed

theorem mux_drops_unknown_cmd_and_Handle_rejects_witness:
  "invoked (ServeQRPC mux_ex (frame_ex 2 0)) = [] \<and>
   written (\<lambda>h r. [out_frame (RequestID r) 0]) (frame_ex 2 0) (ServeQRPC mux_ex (frame_ex 2 0)) = [] \<and>
   written (\<lambda>h r. [out_frame (RequestID r) 0]) (frame_ex 1 0) (ServeQRPC mux_ex (frame_ex 1 0)) =
     [out_frame 42 0] \<and>
   (\<exists>mux'. ServeQRPC mux_ex (frame_ex 2 0) = Returns None mux' \<and> m mux' = m mux_ex) \<and>
   Handle mux_ex 1 None = Panics NilHandler mux_ex \<and>
   Handle mux_ex 1 (Some 9) = Panics (MultipleRegistrations 1) mux_ex \<and>
   Handle (mux_ex\<lparr>m := Some [1 \<mapsto> 5, 3 \<mapsto> 6]\<rparr>) 3 (Some 7) =
     Panics (MultipleRegistrations 3) (mux_ex\<lparr>m := Some [1 \<mapsto> 5, 3 \<mapsto> 6]\<rparr>)"
proof -
  have free: "mux_free mux_ex"
    by (simp add: mux_free_def mux_ex_def)
  have unknown: "map_index (m mux_ex) (Cmd (frame_ex 2 0)) = None"
    by (simp add: map_index_def mux_ex_def frame_ex_def)
  have known: "map_index (m mux_ex) 1 \<noteq> None"
    by (simp add: map_index_def mux_ex_def)
  have nowriter: "\<not> writer (mu mux_ex)"
    by (simp add: mux_ex_def)
  have first: "Handle mux_ex 3 (Some 6) = Returns () (mux_ex\<lparr>m := Some [1 \<mapsto> 5, 3 \<mapsto> 6]\<rparr>)"
    using Handle_new [OF free, of 3 6] by (simp add: map_index_def mux_ex_def)
  have served: "written (\<lambda>h r. [out_frame (RequestID r) 0]) (frame_ex 1 0)
      (ServeQRPC mux_ex (frame_ex 1 0)) = [out_frame 42 0]"
    by (simp add: written_def ServeQRPC_def RWMutex_RLock_def map_index_def mux_ex_def
        frame_ex_def Let_def)
  show ?thesis
    using mux_drops_unknown_cmd_and_Handle_rejects
      [of mux_ex "frame_ex 2 0" "\<lambda>h r. [out_frame (RequestID r) 0]" 1 9,
        where h' = 7 and mux' = "mux_ex\<lparr>m := Some [1 \<mapsto> 5, 3 \<mapsto> 6]\<rparr>"]
      mux_drops_unknown_cmd_and_Handle_rejects
      [of mux_ex "frame_ex 2 0" "\<lambda>h r. [out_frame (RequestID r) 0]" 3 6,
        where h' = 7 and mux' = "mux_ex\<lparr>m := Some [1 \<mapsto> 5, 3 \<mapsto> 6]\<rparr>"]
      free unknown known nowriter first served
    by simp
qed

text \<open>
  Claim C10. \<^verbatim>\<open>ServeMux.ServeQRPC\<close> takes the read lock; where the cmd has a registered
  handler it releases the lock before calling the handler, so the mutex is as before;
  where the cmd is unknown it returns with the read lock still held: one more reader
  than before. The lock is therefore not released on every return path.
\<close>

theorem ServeQRPC_keeps_read_lock_on_unknown_cmd:
  "(\<not> writer (mu mux) \<and> map_index (m mux) (Cmd r) = Some h \<longrightarrow>
      ServeQRPC mux r = Returns (Some h) mux) \<and>
   (\<not> writer (mu mux) \<and> map_index (m mux) (Cmd r) = None \<longrightarrow>
      ServeQRPC mux r =
        Returns None (mux\<lparr>mu := (mu mux)\<lparr>readers := readers (mu mux) + 1\<rparr>\<rparr>))"
  by (simp add: ServeQRPC_unknown ServeQRPC_known)

theorem ServeQRPC_keeps_read_lock_on_unknown_cmd_witness:
  "ServeQRPC mux_ex (frame_ex 1 0) = Returns (Some 5) mux_ex \<and>
   ServeQRPC mux_ex (frame_ex 2 0) =
     Returns None (mux_ex\<lparr>mu := \<lparr>readers = 1, writer = False\<rparr>\<rparr>)"
proof -
  have nowriter: "\<not> writer (mu mux_ex)"
    by (simp add: mux_ex_def)
  have known: "map_index (m mux_ex) (Cmd (frame_ex 1 0)) = Some 5"
    by (simp add: map_index_def mux_ex_def frame_ex_def)
  have unknown: "map_index (m mux_ex) (Cmd (frame_ex 2 0)) = None"
    by (simp add: map_index_def mux_ex_def frame_ex_def)
  have mu: "(mu mux_ex)\<lparr>readers := readers (mu mux_ex) + 1\<rparr> = \<lparr>readers = 1, writer = False\<rparr>"
    by (simp add: mux_ex_def)
  show ?thesis
    using ServeQRPC_keeps_read_lock_on_unknown_cmd [of mux_ex "frame_ex 1 0" 5]
      ServeQRPC_keeps_read_lock_on_unknown_cmd [of mux_ex "frame_ex 2 0" 5]
      nowriter known unknown mu
    by simp
qed

section \<open>Properties of the registries\<close>

lemma NewServer_sizes:
  "length (id2Conn (NewServer bs)) = 2 \<and> length (activeConn (NewServer bs)) = length bs"
  by (simp add: NewServer_def)

lemma bindID_out_of_range:
  "\<not> smu srv \<Longrightarrow> \<not> in_range (idx sc) (id2Conn srv) \<Longrightarrow>
     bindID closeLocked srv sc ident = Panics (IndexOutOfRange (idx sc) (length (id2Conn srv))) srv"
  by (simp add: bindID_def Let_def)

lemma SetID_out_of_range:
  "\<not> smu srv \<Longrightarrow> \<not> in_range (idx sc) (id2Conn srv) \<Longrightarrow> ident \<noteq> [] \<Longrightarrow>
     SetID closeLocked srv sc ident =
       Panics (IndexOutOfRange (idx sc) (length (id2Conn srv))) (srv, sc\<lparr>sc_id := ident\<rparr>)"
  by (simp add: SetID_def Let_def bindID_out_of_range)

lemma untrack_out_of_range:
  "inLock \<or> \<not> smu srv \<Longrightarrow> sc_id sc \<noteq> [] \<Longrightarrow> \<not> in_range (idx sc) (id2Conn srv) \<Longrightarrow>
     untrack srv sc inLock = Panics (IndexOutOfRange (idx sc) (length (id2Conn srv))) srv"
  by (auto simp add: untrack_def Let_def)

lemma untrack_no_id:
  "inLock \<or> \<not> smu srv \<Longrightarrow> sc_id sc = [] \<Longrightarrow> in_range (idx sc) (activeConn srv) \<Longrightarrow>
     untrack srv sc inLock =
       Returns () (srv\<lparr>activeConn :=
          (activeConn srv)[nat (idx sc) := activeConn srv ! nat (idx sc) - {ref sc}]\<rparr>)"
  by (auto simp add: untrack_def Let_def)


text \<open>
  Claim C9, as stated, fails for \<^verbatim>\<open>untrack\<close>: on a server made with three bindings, a
  connection of binding index 2 that never got an id is untracked without a panic,
  because \<^verbatim>\<open>srv.id2Conn[idx]\<close> is evaluated only under \<^verbatim>\<open>if sc.id != ""\<close>.
\<close>

theorem untrack_without_id_does_not_panic:
  "newConn (NewServer [binding_ex, binding_ex, binding_ex]) 7 () 2 =
     Returns
       \<lparr>ref = 7, idx = 2, sc_id = [], untrack_flag = 0, untrackedCh = False,
        closeNotify = [], rwc = (), cancelled = False, did = []\<rparr>
       ((NewServer [binding_ex, binding_ex, binding_ex])\<lparr>activeConn := [{}, {}, {7}]\<rparr>) \<and>
   untrack ((NewServer [binding_ex, binding_ex, binding_ex])\<lparr>activeConn := [{}, {}, {7}]\<rparr>)
       \<lparr>ref = 7, idx = 2, sc_id = [], untrack_flag = 0, untrackedCh = False,
        closeNotify = [], rwc = (), cancelled = False, did = []\<rparr> False =
     Returns () (NewServer [binding_ex, binding_ex, binding_ex])"
  by (simp add: newConn_def untrack_def NewServer_def in_range_def Let_def numeral_2_eq_2)

text \<open>
  Claim C9, amended. \<^verbatim>\<open>NewServer\<close> gives \<^verbatim>\<open>id2Conn\<close> exactly two maps whatever the number
  of bindings, and \<^verbatim>\<open>activeConn\<close> one entry per binding. On a server whose \<^verbatim>\<open>id2Conn\<close>
  has two maps and whose mutex is free, for a connection of binding index 2 or more:
  \<^verbatim>\<open>SetID\<close> with a non-empty id panics with an index out of range in \<^verbatim>\<open>bindID\<close> (the id
  is already written to the connection), and \<^verbatim>\<open>untrack\<close> panics in the same way when the
  connection has a non-empty id. When the connection has no id, \<^verbatim>\<open>untrack\<close> does not
  touch \<^verbatim>\<open>id2Conn\<close>: it returns, having removed the connection from \<^verbatim>\<open>activeConn[idx]\<close>.
\<close>

theorem id2Conn_has_two_maps_and_index_2_panics:
  "length (id2Conn (NewServer bs)) = 2 \<and> length (activeConn (NewServer bs)) = length bs \<and>
   (length (id2Conn srv) = 2 \<and> \<not> smu srv \<and> 2 \<le> idx sc \<and> ident \<noteq> [] \<longrightarrow>
      SetID closeLocked srv sc ident =
        Panics (IndexOutOfRange (idx sc) 2) (srv, sc\<lparr>sc_id := ident\<rparr>)) \<and>
   (length (id2Conn srv) = 2 \<and> \<not> smu srv \<and> 2 \<le> idx sc \<and> sc_id sc \<noteq> [] \<longrightarrow>
      untrack srv sc False = Panics (IndexOutOfRange (idx sc) 2) srv) \<and>
   (\<not> smu srv \<and> sc_id sc = [] \<and> in_range (idx sc) (activeConn srv) \<longrightarrow>
      untrack srv sc False =
        Returns ()
          (srv\<lparr>activeConn :=
                 (activeConn srv)[nat (idx sc) := activeConn srv ! nat (idx sc) - {ref sc}]\<rparr>))"
proof -
  have oor: "\<not> in_range (idx sc) (id2Conn srv)" if "length (id2Conn srv) = 2" "2 \<le> idx sc"
    using that by (simp add: in_range_def)
  show ?thesis
    using oor
    by (auto simp add: NewServer_sizes SetID_out_of_range untrack_out_of_range untrack_no_id)
qed

theorem id2Conn_has_two_maps_and_index_2_panics_witness:
  "SetID (\<lambda>v s. s) (NewServer [binding_ex, binding_ex, binding_ex])
       \<lparr>ref = 7, idx = 2, sc_id = [], untrack_flag = 0, untrackedCh = False,
        closeNotify = [], rwc = (), cancelled = False, did = []\<rparr> ''x'' =
     Panics (IndexOutOfRange 2 2)
       (NewServer [binding_ex, binding_ex, binding_ex],
        \<lparr>ref = 7, idx = 2, sc_id = ''x'', untrack_flag = 0, untrackedCh = False,
         closeNotify = [], rwc = (), cancelled = False, did = []\<rparr>) \<and>
   untrack (NewServer [binding_ex, binding_ex, binding_ex])
       \<lparr>ref = 7, idx = 2, sc_id = ''x'', untrack_flag = 0, untrackedCh = False,
        closeNotify = [], rwc = (), cancelled = False, did = []\<rparr> False =
     Panics (IndexOutOfRange 2 2) (NewServer [binding_ex, binding_ex, binding_ex]) \<and>
   untrack (NewServer [binding_ex, binding_ex, binding_ex])
       \<lparr>ref = 7, idx = 1, sc_id = [], untrack_flag = 0, untrackedCh = False,
        closeNotify = [], rwc = (), cancelled = False, did = []\<rparr> False =
     Returns () (NewServer [binding_ex, binding_ex, binding_ex])"
proof -
  let ?srv = "NewServer [binding_ex, binding_ex, binding_ex] :: nat Server"
  let ?sc = "\<lparr>ref = 7, idx = 2, sc_id = [], untrack_flag = 0, untrackedCh = False,
        closeNotify = [], rwc = (), cancelled = False, did = []\<rparr>"
  have two: "length (id2Conn ?srv) = 2" and free: "\<not> smu ?srv"
    by (simp_all add: NewServer_def)
  have same: "?srv\<lparr>activeConn := (activeConn ?srv)[nat 1 := activeConn ?srv ! nat 1 - {7}]\<rparr> = ?srv"
    by (simp add: NewServer_def)
  have inr: "in_range 1 (activeConn ?srv)"
    by (simp add: NewServer_def in_range_def)
  show ?thesis
    using id2Conn_has_two_maps_and_index_2_panics
        [of "[binding_ex, binding_ex, binding_ex]" ?srv ?sc "''x''" "\<lambda>v s. s"]
      id2Conn_has_two_maps_and_index_2_panics
        [of "[binding_ex, binding_ex, binding_ex]" ?srv "?sc\<lparr>sc_id := ''x''\<rparr>" "''x''" "\<lambda>v s. s"]
      id2Conn_has_two_maps_and_index_2_panics
        [of "[binding_ex, binding_ex, binding_ex]" ?srv "?sc\<lparr>idx := 1\<rparr>" "''x''" "\<lambda>v s. s"]
      two free same inr
    by simp
qed

section \<open>Properties of closing a connection\<close>









text \<open>
  Whatever the socket does: every call of \<^verbatim>\<open>Close\<close> that returns has run
  \<^verbatim>\<open>closeUntracked\<close>, so \<open>n\<close> calls call the socket's \<^verbatim>\<open>Close\<close> \<open>n\<close> times, and the context
  is cancelled once for every call that returned nil.
\<close>

lemma Close_runs_closeUntracked:
  "Close rwcClose srv sc = Returns err st \<Longrightarrow>
     \<exists>sc0. closeUntracked rwcClose sc0 = (err, snd st) \<and> did sc0 = did sc"
  by (auto simp add: Close_def untrack_once_def Let_def
      split: if_splits outcome.splits prod.splits)

lemma closeUntracked_counts:
  "closeUntracked rwcClose sc0 = (err, sc') \<Longrightarrow>
     count_did RwcClose sc' = count_did RwcClose sc0 + 1 \<and>
     count_did CancelCtx sc' = count_did CancelCtx sc0 + (if err = None then 1 else 0)"
  by (auto simp add: closeUntracked_def count_did_def Let_def split: prod.splits option.splits)

lemma Close_times_counts:
  "Close_times rwcClose n srv sc = Returns errs st \<Longrightarrow>
     length errs = n \<and> count_did RwcClose (snd st) = count_did RwcClose sc + n \<and>
     count_did CancelCtx (snd st) =
       count_did CancelCtx sc + length (filter (\<lambda>e. e = None) errs)"
proof (induction n arbitrary: srv sc errs st)
  case 0
  then show ?case by auto
next
  case (Suc n)
  from Suc.prems obtain err st1 errs' where
    c: "Close rwcClose srv sc = Returns err st1" and
    r: "Close_times rwcClose n (fst st1) (snd st1) = Returns errs' st" and
    e: "errs = err # errs'"
    by (auto split: outcome.splits)
  from Close_runs_closeUntracked [OF c] obtain sc0 where
    "closeUntracked rwcClose sc0 = (err, snd st1)" and "did sc0 = did sc"
    by blast
  then have one: "count_did RwcClose (snd st1) = count_did RwcClose sc + 1 \<and>
     count_did CancelCtx (snd st1) = count_did CancelCtx sc + (if err = None then 1 else 0)"
    using closeUntracked_counts [of rwcClose sc0 err "snd st1"] by (simp add: count_did_def)
  from Suc.IH [OF r] one e show ?case
    by auto
qed




section \<open>Properties of Shutdown\<close>











section \<open>Properties of PushFrame\<close>

lemma PushFrame_frame:
  "fst (snd (PushFrame endWrite srv cmd flags payload)) =
     \<lparr>w_RequestID = pushID srv + 1, w_Cmd = cmd, w_Flags = flags AND PushFlag,
      w_Payload = payload\<rparr>"
  by (simp add: PushFrame_def Let_def StartWrite_def WriteBytes_def newFrameWriter_def)

lemma PushFrame_counter:
  "pushID (snd (snd (PushFrame endWrite srv cmd flags payload))) = pushID srv + 1"
  by (simp add: PushFrame_def Let_def)

lemma PushFrame_IsPush:
  "IsPush (w_Flags (fst (snd (PushFrame endWrite srv cmd flags payload)))) = IsPush flags"
  by (simp add: PushFrame_frame IsPush_def and.assoc)

text \<open>
  Claim C3 fails on the code, which computes \<^verbatim>\<open>flags &= PushFlag\<close>: called with no
  flag, \<^verbatim>\<open>PushFrame\<close> submits a frame with the given cmd and payload and the next push
  id, but with no flag at all, so without \<^verbatim>\<open>PushFlag\<close>.
\<close>

theorem PushFrame_without_flag_submits_no_push:
  "fst (snd (PushFrame endWrite srv cmd 0 payload)) =
     \<lparr>w_RequestID = pushID srv + 1, w_Cmd = cmd, w_Flags = 0, w_Payload = payload\<rparr> \<and>
   \<not> IsPush (w_Flags (fst (snd (PushFrame endWrite srv cmd 0 payload))))"
  by (simp add: PushFrame_frame IsPush_def)

section \<open>Properties of the accept loop\<close>

text \<open>Every socket that the accept loop starts serving is one that \<^verbatim>\<open>AcceptTCP\<close> returned,
  with the settings it had then.\<close>

lemma accept_loop_sockets:
  "set (served_sockets (fst (accept_loop i d srv turns))) \<subseteq> {tc. \<exists>a \<in> set turns. accepted a = Inr tc}"
proof (induction turns arbitrary: d srv)
  case Nil
  then show ?case by simp
next
  case (Cons a turns)
  show ?case
  proof (cases "accepted a")
    case (Inl e)
    then show ?thesis
      using Cons.IH [of d srv] Cons.IH [of "backoff d" srv]
      by (auto split: prod.splits)
  next
    case (Inr rw)
    show ?thesis
    proof (cases "newConn srv (fresh a) rw i")
      case (Returns c srv')
      then have "rwc c = rw"
        by (auto simp add: newConn_def split: if_splits)
      with Inr Returns Cons.IH [of 0 srv'] show ?thesis
        by (auto split: prod.splits)
    qed (use Inr in auto)
  qed
qed

lemma served_sockets_append:
  "served_sockets (xs @ ys) = served_sockets xs @ served_sockets ys"
  by (induction xs rule: served_sockets.induct) auto

lemma Server_serve_sockets:
  "trackListener srv l True = Some srv1 \<Longrightarrow>
     served_sockets (fst (Server_serve l i srv turns)) =
       served_sockets (fst (accept_loop i 0 srv1 turns))"
  by (auto simp add: Server_serve_def leave_serve_def served_sockets_append
      split: prod.splits served.splits option.splits)

text \<open>
  Claim C6 fails on the code. \<^verbatim>\<open>tcpKeepAliveListener.Accept\<close> turns keep-alive on with a
  period of 3 minutes, but \<^verbatim>\<open>Server.serve\<close> calls \<^verbatim>\<open>l.AcceptTCP()\<close>, the method of the
  embedded listener: a socket accepted with keep-alive off is served with keep-alive
  off.
\<close>

theorem serve_accepts_without_keepalive:
  "served_sockets
     (fst (Server_serve 1 0 (NewServer [binding_ex])
        [\<lparr>accepted = Inr raw_conn, done_seen = False, fresh = 7\<rparr>])) = [raw_conn] \<and>
   \<not> keepAlive raw_conn \<and>
   Accept (Inr raw_conn) = Inr (raw_conn\<lparr>keepAlive := True, keepAlivePeriod := 180000000000\<rparr>)"
  by (simp add: Server_serve_def trackListener_def NewServer_def newConn_def in_range_def
      raw_conn_def Accept_def Minute_def Second_def Millisecond_def)

section \<open>Properties of the dispatcher\<close>

lemma rst_frames_append: "rst_frames rid (xs @ ys) = rst_frames rid xs @ rst_frames rid ys"
  by (induction rid xs rule: rst_frames.induct) auto

lemma observations_append: "observations (xs @ ys) = observations xs @ observations ys"
  by (induction xs rule: observations.induct) auto

lemma instrument_events:
  "rst_frames rid (instrument binding frame since err) = [] \<and>
   observations (instrument binding frame since err) =
     (if LatencyMetric binding = None then []
      else [[''method'', Itoa (unat (Cmd frame)), ''error'', Sprintf_v err]])"
  by (simp add: instrument_def)

lemma IsRst_StreamRstFlag: "IsRst StreamRstFlag"
  by (simp add: IsRst_def StreamRstFlag_def)

text \<open>
  Claim C2, as stated, fails twice. A handler that returned without a panic, leaving
  its stream open, gets the automatic \<^verbatim>\<open>StreamRstFlag\<close> frame all the same; and on a
  binding without a \<^verbatim>\<open>LatencyMetric\<close> nothing is observed, even for a handler that
  panicked.
\<close>

theorem rst_sent_without_panic_and_nothing_observed_without_metric:
  "recovered (run_ex (Handler binding_ex) ConnWriter (frame_ex 7 0)) = None \<and>
   rst_frames 42 (serve_frame run_ex (\<lambda>w. None) binding_ex (frame_ex 7 0)) =
     [\<lparr>w_RequestID = 42, w_Cmd = 0, w_Flags = 4, w_Payload = []\<rparr>] \<and>
   observations (handleRequestPanic (\<lambda>w. None) binding_ex (frame_ex 7 0) 1000 (Some ''boom'')) = []"
  by (simp add: serve_frame_def run_ex_def handleRequestPanic_def instrument_def binding_ex_def
      frame_ex_def IsSelfClosed_def IsNonBlock_def StartWrite_def newFrameWriter_def
      StreamRstFlag_def IsRst_def Let_def)

text \<open>
  Claim C2, amended. After a handler invocation on a request frame, whether the
  handler panicked or returned, \<^verbatim>\<open>handleRequestPanic\<close> submits one frame with
  \<^verbatim>\<open>StreamRstFlag\<close>, cmd 0 and no payload on the originating request id if and only if
  the stream is not self-closed; and it records one latency observation, labelled with
  the cmd in decimal and the recovered value as \<^verbatim>\<open>%v\<close> prints it, if and only if the
  binding has a \<^verbatim>\<open>LatencyMetric\<close>. For a frame that the dispatcher serves inline, the
  stream is judged as the handler has left it.
\<close>

theorem rst_iff_stream_open_and_observation_iff_metric:
  "rst_frames (RequestID frame) (handleRequestPanic endWrite binding frame since err) =
     (if IsSelfClosed (Stream frame) then []
      else [\<lparr>w_RequestID = RequestID frame, w_Cmd = 0, w_Flags = StreamRstFlag, w_Payload = []\<rparr>]) \<and>
   observations (handleRequestPanic endWrite binding frame since err) =
     (if LatencyMetric binding = None then []
      else [[''method'', Itoa (unat (Cmd frame)), ''error'', Sprintf_v err]]) \<and>
   (\<not> IsNonBlock (Flags frame) \<longrightarrow>
      rst_frames (RequestID frame) (serve_frame run endWrite binding frame) =
        (if IsSelfClosed (stream_after (run (Handler binding) ConnWriter frame)) then []
         else [\<lparr>w_RequestID = RequestID frame, w_Cmd = 0, w_Flags = StreamRstFlag,
                w_Payload = []\<rparr>]))"
proof -
  have after: "rst_frames (RequestID frame) (handleRequestPanic endWrite binding frame' since' err') =
     (if IsSelfClosed (Stream frame') then []
      else [\<lparr>w_RequestID = RequestID frame', w_Cmd = 0, w_Flags = StreamRstFlag, w_Payload = []\<rparr>])"
    if "RequestID frame' = RequestID frame" for frame' since' err'
    using that
    by (simp add: handleRequestPanic_def rst_frames_append instrument_events Let_def
        StartWrite_def IsRst_StreamRstFlag)
  have seen: "observations (handleRequestPanic endWrite binding frame since err) =
     (if LatencyMetric binding = None then []
      else [[''method'', Itoa (unat (Cmd frame)), ''error'', Sprintf_v err]])"
    by (simp add: handleRequestPanic_def observations_append instrument_events Let_def)
  have inline: "rst_frames (RequestID frame) (serve_frame run endWrite binding frame) =
        (if IsSelfClosed (stream_after (run (Handler binding) ConnWriter frame)) then []
         else [\<lparr>w_RequestID = RequestID frame, w_Cmd = 0, w_Flags = StreamRstFlag,
                w_Payload = []\<rparr>])"
    if "\<not> IsNonBlock (Flags frame)"
    using that by (simp add: serve_frame_def Let_def rst_frames_append after)
  show ?thesis
    using after [of frame since err] seen inline by simp
qed

lemma Itoa_7: "Itoa 7 = ''7''"
  by (simp add: Itoa.simps [of 7] digit_def)

theorem rst_iff_stream_open_and_observation_iff_metric_witness:
  "rst_frames 42
     (handleRequestPanic (\<lambda>w. None) (binding_ex\<lparr>LatencyMetric := Some 1\<rparr>) (frame_ex 7 0) 1000
        (Some ''boom'')) =
     [\<lparr>w_RequestID = 42, w_Cmd = 0, w_Flags = 4, w_Payload = []\<rparr>] \<and>
   observations
     (handleRequestPanic (\<lambda>w. None) (binding_ex\<lparr>LatencyMetric := Some 1\<rparr>) (frame_ex 7 0) 1000
        (Some ''boom'')) = [[''method'', ''7'', ''error'', ''boom'']] \<and>
   rst_frames 42
     (handleRequestPanic (\<lambda>w. None) binding_ex
        ((frame_ex 7 0)\<lparr>Stream := \<lparr>inClosed = False, outClosed = True, rstSent = False\<rparr>\<rparr>) 1000
        (Some ''boom'')) = [] \<and>
   rst_frames 42 (serve_frame run_ex (\<lambda>w. None) binding_ex (frame_ex 7 0)) =
     [\<lparr>w_RequestID = 42, w_Cmd = 0, w_Flags = 4, w_Payload = []\<rparr>]"
proof -
  have blocking: "\<not> IsNonBlock (Flags (frame_ex 7 0))"
    by (simp add: frame_ex_def IsNonBlock_def)
  have left_open: "\<not> IsSelfClosed (stream_after (run_ex (Handler binding_ex) ConnWriter (frame_ex 7 0)))"
    by (simp add: run_ex_def frame_ex_def IsSelfClosed_def)
  have cmd: "unat (Cmd (frame_ex 7 0)) = 7" and rid: "RequestID (frame_ex 7 0) = 42"
    by (simp_all add: frame_ex_def)
  have "open": "\<not> IsSelfClosed (Stream (frame_ex 7 0))"
    by (simp add: frame_ex_def IsSelfClosed_def)
  have closed: "IsSelfClosed (Stream ((frame_ex 7 0)\<lparr>Stream := \<lparr>inClosed = False, outClosed = True, rstSent = False\<rparr>\<rparr>))"
    by (simp add: IsSelfClosed_def)
  have rid': "RequestID ((frame_ex 7 0)\<lparr>Stream := \<lparr>inClosed = False, outClosed = True, rstSent = False\<rparr>\<rparr>) = 42"
    by (simp add: frame_ex_def)
  show ?thesis
    using rst_iff_stream_open_and_observation_iff_metric
        [of "frame_ex 7 0" "\<lambda>w. None" "binding_ex\<lparr>LatencyMetric := Some 1\<rparr>" 1000
          "Some ''boom''" run_ex]
      rst_iff_stream_open_and_observation_iff_metric
        [of "(frame_ex 7 0)\<lparr>Stream := \<lparr>inClosed = False, outClosed = True, rstSent = False\<rparr>\<rparr>"
          "\<lambda>w. None" binding_ex 1000 "Some ''boom''" run_ex]
      rst_iff_stream_open_and_observation_iff_metric
        [of "frame_ex 7 0" "\<lambda>w. None" binding_ex 1000 "Some ''boom''" run_ex]
      cmd rid "open" closed rid' blocking left_open
    by (simp add: Itoa_7 Sprintf_v_def StreamRstFlag_def)
qed

lemma inline_calls_append: "inline_calls (xs @ ys) = inline_calls xs @ inline_calls ys"
  by (induction xs rule: inline_calls.induct) auto

lemma spawned_calls_append: "spawned_calls (xs @ ys) = spawned_calls xs @ spawned_calls ys"
  by (induction xs rule: spawned_calls.induct) auto

lemma handleRequestPanic_calls_nothing:
  "inline_calls (handleRequestPanic endWrite binding frame since err) = [] \<and>
   spawned_calls (handleRequestPanic endWrite binding frame since err) = [] \<and>
   ReadMore \<notin> set (handleRequestPanic endWrite binding frame since err)"
  by (simp add: handleRequestPanic_def instrument_def Let_def inline_calls_append spawned_calls_append)

lemma serve_frame_blocking:
  "\<not> IsNonBlock (Flags f) \<Longrightarrow>
     serve_frame run endWrite binding f =
       Serve ConnWriter f #
       handleRequestPanic endWrite binding
         (f\<lparr>Stream := stream_after (run (Handler binding) ConnWriter f)\<rparr>)
         (took (run (Handler binding) ConnWriter f))
         (recovered (run (Handler binding) ConnWriter f)) @
       [ReadMore]"
  by (simp add: serve_frame_def Let_def)

lemma serve_frame_nonblocking:
  "IsNonBlock (Flags f) \<Longrightarrow>
     serve_frame run endWrite binding f =
       [ReadMore,
        GoFunc
          (Serve FreshWriter f #
           handleRequestPanic endWrite binding
             (f\<lparr>Stream := stream_after (run (Handler binding) FreshWriter f)\<rparr>)
             (took (run (Handler binding) FreshWriter f))
             (recovered (run (Handler binding) FreshWriter f)))]"
  by (simp add: serve_frame_def Let_def)

lemma serve_frame_calls:
  "inline_calls (serve_frame run endWrite binding f) =
     (if IsNonBlock (Flags f) then [] else [(ConnWriter, f)]) \<and>
   spawned_calls (serve_frame run endWrite binding f) =
     (if IsNonBlock (Flags f) then [(FreshWriter, f)] else [])"
  by (simp add: serve_frame_blocking serve_frame_nonblocking inline_calls_append
      spawned_calls_append handleRequestPanic_calls_nothing)

lemma serveconn_serve_frame:
  "fst (serveconn_serve run endWrite binding (ReadFrame f # rest)) =
     serve_frame run endWrite binding f @ fst (serveconn_serve run endWrite binding rest)"
  by (simp split: prod.split)

lemma serveconn_serve_calls:
  "inline_calls (fst (serveconn_serve run endWrite binding sel)) =
     map (Pair ConnWriter) (filter (\<lambda>f. \<not> IsNonBlock (Flags f)) (received sel)) \<and>
   spawned_calls (fst (serveconn_serve run endWrite binding sel)) =
     map (Pair FreshWriter) (filter (\<lambda>f. IsNonBlock (Flags f)) (received sel))"
proof (induction sel rule: received.induct)
  case 1
  then show ?case by simp
next
  case (2 rest)
  then show ?case by simp
next
  case (3 f rest)
  then show ?case
    by (simp only: serveconn_serve_frame received.simps inline_calls_append spawned_calls_append
        serve_frame_calls) simp
qed

text \<open>
  Claim C4. For a received frame with \<^verbatim>\<open>NonBlockFlag\<close> clear, the dispatcher calls the
  handler itself, on the connection's writer, as its first step, and signals the
  reader's gate as its last step, after the handler and \<^verbatim>\<open>handleRequestPanic\<close> are
  done; with the flag set it signals the gate first and then starts a task in which
  the handler runs on a new writer. Over the whole loop the dispatcher's own handler
  calls are therefore the blocking frames in the order received, and the calls in
  started tasks are the non-blocking frames.
\<close>

theorem blocking_inline_then_gate_nonblocking_gate_then_task:
  "(\<not> IsNonBlock (Flags f) \<longrightarrow>
      (\<exists>after. serve_frame run endWrite binding f = Serve ConnWriter f # after @ [ReadMore] \<and>
         ReadMore \<notin> set after \<and> inline_calls after = [] \<and> spawned_calls after = [])) \<and>
   (IsNonBlock (Flags f) \<longrightarrow>
      (\<exists>after. serve_frame run endWrite binding f = [ReadMore, GoFunc (Serve FreshWriter f # after)] \<and>
         inline_calls after = [])) \<and>
   inline_calls (fst (serveconn_serve run endWrite binding sel)) =
     map (Pair ConnWriter) (filter (\<lambda>f. \<not> IsNonBlock (Flags f)) (received sel)) \<and>
   spawned_calls (fst (serveconn_serve run endWrite binding sel)) =
     map (Pair FreshWriter) (filter (\<lambda>f. IsNonBlock (Flags f)) (received sel))"
proof (intro conjI impI)
  assume "\<not> IsNonBlock (Flags f)"
  then show "\<exists>after. serve_frame run endWrite binding f = Serve ConnWriter f # after @ [ReadMore] \<and>
         ReadMore \<notin> set after \<and> inline_calls after = [] \<and> spawned_calls after = []"
    by (simp add: serve_frame_blocking handleRequestPanic_calls_nothing)
next
  assume "IsNonBlock (Flags f)"
  then show "\<exists>after. serve_frame run endWrite binding f = [ReadMore, GoFunc (Serve FreshWriter f # after)] \<and>
         inline_calls after = []"
    by (simp add: serve_frame_nonblocking handleRequestPanic_calls_nothing)
qed (simp_all add: serveconn_serve_calls)

theorem blocking_inline_then_gate_nonblocking_gate_then_task_witness:
  "(\<exists>after. serve_frame run_ex (\<lambda>w. None) binding_ex (frame_ex 1 0) =
        Serve ConnWriter (frame_ex 1 0) # after @ [ReadMore] \<and> ReadMore \<notin> set after) \<and>
   (\<exists>after. serve_frame run_ex (\<lambda>w. None) binding_ex (frame_ex 2 8) =
        [ReadMore, GoFunc (Serve FreshWriter (frame_ex 2 8) # after)]) \<and>
   inline_calls
     (fst (serveconn_serve run_ex (\<lambda>w. None) binding_ex
        [ReadFrame (frame_ex 1 0), ReadFrame (frame_ex 2 8), ReadFrame (frame_ex 3 0), CtxDone])) =
     [(ConnWriter, frame_ex 1 0), (ConnWriter, frame_ex 3 0)] \<and>
   spawned_calls
     (fst (serveconn_serve run_ex (\<lambda>w. None) binding_ex
        [ReadFrame (frame_ex 1 0), ReadFrame (frame_ex 2 8), ReadFrame (frame_ex 3 0), CtxDone])) =
     [(FreshWriter, frame_ex 2 8)]"
proof -
  have b: "\<not> IsNonBlock (Flags (frame_ex 1 0))" "\<not> IsNonBlock (Flags (frame_ex 3 0))"
    and nb: "IsNonBlock (Flags (frame_ex 2 8))"
    by (simp_all add: frame_ex_def IsNonBlock_def NonBlockFlag_def)
  have r: "received [ReadFrame (frame_ex 1 0), ReadFrame (frame_ex 2 8), ReadFrame (frame_ex 3 0), CtxDone] =
      [frame_ex 1 0, frame_ex 2 8, frame_ex 3 0]"
    by simp
  show ?thesis
    using blocking_inline_then_gate_nonblocking_gate_then_task [of "frame_ex 1 0" run_ex "\<lambda>w. None" binding_ex
        "[ReadFrame (frame_ex 1 0), ReadFrame (frame_ex 2 8), ReadFrame (frame_ex 3 0), CtxDone]"]
      blocking_inline_then_gate_nonblocking_gate_then_task [of "frame_ex 2 8" run_ex "\<lambda>w. None" binding_ex
        "[ReadFrame (frame_ex 1 0), ReadFrame (frame_ex 2 8), ReadFrame (frame_ex 3 0), CtxDone]"]
      b nb
    unfolding r
    by auto
qed

section \<open>Properties of the writer loop\<close>

text \<open>Every request that the loop receives gets one reply on its result channel.\<close>

lemma writeFrames_replies: "length (fst (writeFrames ops write reqs st)) = length reqs"
proof (induction reqs arbitrary: st)
  case Nil
  then show ?case by simp
next
  case (Cons dfw reqs)
  obtain r st1 where step: "writeFrames_request ops write dfw st = (r, st1)"
    by (cases "writeFrames_request ops write dfw st")
  obtain rs st2 where rest: "writeFrames ops write reqs st1 = (rs, st2)"
    by (cases "writeFrames ops write reqs st1")
  from Cons.IH [of st1] rest have "length rs = length reqs"
    by simp
  then show ?case
    by (simp add: step rest)
qed

text \<open>A frame that carries both \<^verbatim>\<open>Rst\<close> and \<^verbatim>\<open>Push\<close> takes the first branch.\<close>

lemma Rst_is_tested_before_Push:
  "IsRst (w_Flags dfw) \<Longrightarrow> IsPush (w_Flags dfw) \<Longrightarrow>
   GetStream ops (cs st) (w_RequestID dfw) (w_Flags dfw) = None \<Longrightarrow>
      writeFrames_request ops write dfw st = (Some ErrRstNonExistingStream, st)"
  by (simp add: writeFrames_request_def Let_def)

text \<open>
  Claim C7. One iteration of the writer loop, by the cases of its \<^verbatim>\<open>if\<close> / \<^verbatim>\<open>else if\<close>
  chain, in its order. A frame with \<^verbatim>\<open>Rst\<close> on an id without a stream: the caller gets
  \<^verbatim>\<open>ErrRstNonExistingStream\<close>. A frame with \<^verbatim>\<open>Rst\<close> whose \<^verbatim>\<open>AddOutFrame\<close> returns false:
  the caller gets nil and nothing is written. Otherwise, a frame without \<^verbatim>\<open>Push\<close>
  whose \<^verbatim>\<open>AddOutFrame\<close> returns false: the caller gets \<^verbatim>\<open>ErrWriteAfterCloseSelf\<close> and
  nothing is written. Otherwise, a frame with \<^verbatim>\<open>Push\<close>: it goes to the socket without
  any call on the stream table, which stays as it was.
\<close>

theorem writer_loop_cases:
  "(IsRst (w_Flags dfw) \<and> GetStream ops (cs st) (w_RequestID dfw) (w_Flags dfw) = None \<longrightarrow>
      writeFrames_request ops write dfw st = (Some ErrRstNonExistingStream, st)) \<and>
   (IsRst (w_Flags dfw) \<and> GetStream ops (cs st) (w_RequestID dfw) (w_Flags dfw) = Some s \<and>
    AddOutFrame ops (cs st) s (w_RequestID dfw) (w_Flags dfw) = (False, cs') \<longrightarrow>
      writeFrames_request ops write dfw st = (None, st\<lparr>cs := cs'\<rparr>)) \<and>
   (\<not> IsRst (w_Flags dfw) \<and> \<not> IsPush (w_Flags dfw) \<and>
    CreateOrGetStream ops (cs st) (w_RequestID dfw) (w_Flags dfw) = (s, cs1) \<and>
    AddOutFrame ops cs1 s (w_RequestID dfw) (w_Flags dfw) = (False, cs') \<longrightarrow>
      writeFrames_request ops write dfw st = (Some ErrWriteAfterCloseSelf, st\<lparr>cs := cs'\<rparr>)) \<and>
   (\<not> IsRst (w_Flags dfw) \<and> IsPush (w_Flags dfw) \<longrightarrow>
      writeFrames_request ops write dfw st = socket_write write dfw st \<and>
      cs (snd (writeFrames_request ops write dfw st)) = cs st)"
  by (auto simp add: writeFrames_request_def socket_write_def Let_def split: option.splits)

theorem writer_loop_cases_witness:
  "writeFrames_request table_ops (\<lambda>w. None) (out_frame 5 4) writing_ex =
     (Some ErrRstNonExistingStream, writing_ex) \<and>
   writeFrames_request table_ops (\<lambda>w. None) (out_frame 1 4) writing_ex = (None, writing_ex) \<and>
   writeFrames_request table_ops (\<lambda>w. None) (out_frame 2 0) writing_ex =
     (Some ErrWriteAfterCloseSelf, writing_ex) \<and>
   writeFrames_request table_ops (\<lambda>w. None) (out_frame 9 16) writing_ex =
     (None, writing_ex\<lparr>handed := [out_frame 9 16]\<rparr>)"
proof -
  have rst: "IsRst (w_Flags (out_frame 5 4))" "IsRst (w_Flags (out_frame 1 4))"
    and plain: "\<not> IsRst (w_Flags (out_frame 2 0))" "\<not> IsPush (w_Flags (out_frame 2 0))"
    and push: "\<not> IsRst (w_Flags (out_frame 9 16))" "IsPush (w_Flags (out_frame 9 16))"
    by (simp_all add: out_frame_def IsRst_def IsPush_def StreamRstFlag_def PushFlag_def)
  have absent: "GetStream table_ops (cs writing_ex) (w_RequestID (out_frame 5 4)) (w_Flags (out_frame 5 4)) = None"
    by (simp add: table_ops_def table_GetStream_def writing_ex_def table_ex_def out_frame_def)
  have present: "GetStream table_ops (cs writing_ex) (w_RequestID (out_frame 1 4)) (w_Flags (out_frame 1 4)) = Some 1"
    by (simp add: table_ops_def table_GetStream_def writing_ex_def table_ex_def out_frame_def)
  have again: "AddOutFrame table_ops (cs writing_ex) 1 (w_RequestID (out_frame 1 4)) (w_Flags (out_frame 1 4)) = (False, table_ex)"
    by (simp add: table_ops_def table_AddOutFrame_def writing_ex_def table_ex_def out_frame_def
        IsRst_def StreamRstFlag_def)
  have got: "CreateOrGetStream table_ops (cs writing_ex) (w_RequestID (out_frame 2 0)) (w_Flags (out_frame 2 0)) = (2, table_ex)"
    by (simp add: table_ops_def table_CreateOrGetStream_def writing_ex_def table_ex_def out_frame_def)
  have closed: "AddOutFrame table_ops table_ex 2 (w_RequestID (out_frame 2 0)) (w_Flags (out_frame 2 0)) = (False, table_ex)"
    by (simp add: table_ops_def table_AddOutFrame_def table_ex_def out_frame_def
        IsRst_def StreamRstFlag_def IsSelfClosed_def)
  have same: "writing_ex\<lparr>cs := table_ex\<rparr> = writing_ex"
    by (simp add: writing_ex_def)
  have sw: "socket_write (\<lambda>w. None) (out_frame 9 16) writing_ex = (None, writing_ex\<lparr>handed := [out_frame 9 16]\<rparr>)"
    by (simp add: socket_write_def writing_ex_def Let_def)
  show ?thesis
    using writer_loop_cases [of "out_frame 5 4" table_ops writing_ex "\<lambda>w. None"]
      writer_loop_cases [of "out_frame 1 4" table_ops writing_ex "\<lambda>w. None" 1 table_ex]
      writer_loop_cases [of "out_frame 2 0" table_ops writing_ex "\<lambda>w. None" 2 table_ex table_ex]
      writer_loop_cases [of "out_frame 9 16" table_ops writing_ex "\<lambda>w. None"]
      rst plain push absent present again got closed same sw
    by simp
qed

end
